theory Spec2Isabelle
  imports Main
begin

section \<open>Python values the research agent works with\<close>

subsection \<open>Exceptions\<close>

text \<open>
  The handlers of the program select by class: \<^verbatim>\<open>except asyncio.TimeoutError\<close> and
  \<^verbatim>\<open>except Exception\<close>. An exception is therefore modelled with its class:
  \<open>TimeoutError\<close> (what \<^verbatim>\<open>asyncio.wait_for\<close> raises on expiry; an instance of
  \<^verbatim>\<open>Exception\<close>), \<open>Error cls msg\<close> (any other instance of \<^verbatim>\<open>Exception\<close>, with its
  class name and the text \<^verbatim>\<open>str(e)\<close>), and the two classes that derive from
  \<^verbatim>\<open>BaseException\<close> only: \<open>CancelledError\<close> (task cancellation) and
  \<open>KeyboardInterrupt\<close>.
\<close>

datatype exn = TimeoutError | Error string string | CancelledError | KeyboardInterrupt

fun is_Exception :: "exn \<Rightarrow> bool" where
  "is_Exception TimeoutError = True"
| "is_Exception (Error cls msg) = True"
| "is_Exception CancelledError = False"
| "is_Exception KeyboardInterrupt = False"

fun str_exn :: "exn \<Rightarrow> string" where
  "str_exn (Error cls msg) = msg"
| "str_exn e = []"

subsection \<open>Awaited calls and \<^verbatim>\<open>asyncio.wait_for\<close>\<close>

text \<open>
  An awaited call into a collaborator (the search backend, the agent runner) either
  returns a value after some time, raises after some time, or never completes. Times
  are in milliseconds. \<open>wait_for t c\<close> is \<^verbatim>\<open>await asyncio.wait_for(c, timeout=t)\<close>:
  the outcome of \<open>c\<close> when it arrives before the deadline, \<open>TimeoutError\<close> otherwise.
  A call that needs exactly the whole budget is taken as timed out; asyncio leaves that
  boundary to its scheduler.
\<close>

datatype 'a call = Returns nat 'a | Raises nat exn | Never

fun wait_for :: "nat \<Rightarrow> 'a call \<Rightarrow> exn + 'a" where
  "wait_for t (Returns d x) = (if d < t then Inr x else Inl TimeoutError)"
| "wait_for t (Raises d e) = (if d < t then Inl e else Inl TimeoutError)"
| "wait_for t Never = Inl TimeoutError"

fun exceeds :: "'a call \<Rightarrow> nat \<Rightarrow> bool" where
  "exceeds (Returns d x) t = (t < d)"
| "exceeds (Raises d e) t = (t < d)"
| "exceeds Never t = True"

subsection \<open>JSON values and \<^verbatim>\<open>json.dumps\<close>\<close>

text \<open>
  The values \<^verbatim>\<open>json.dumps\<close> is applied to: \<^verbatim>\<open>None\<close>, booleans, integers, strings,
  lists and dictionaries with string keys (in insertion order). Characters are code
  points below 256. Floating-point numbers are not part of the model.
\<close>

datatype json =
    JNull
  | JBool bool
  | JInt int
  | JStr string
  | JArr "json list"
  | JObj "(string \<times> json) list"

fun join :: "string \<Rightarrow> string list \<Rightarrow> string" where
  "join sep [] = []"
| "join sep [x] = x"
| "join sep (x # y # ys) = x @ sep @ join sep (y # ys)"

fun digits :: "nat \<Rightarrow> string" where
  "digits n = (if n < 10 then [''0123456789'' ! n]
               else digits (n div 10) @ [''0123456789'' ! (n mod 10)])"

declare digits.simps [simp del]

definition int_repr :: "int \<Rightarrow> string" where
  "int_repr i = (if i < 0 then CHR ''-'' # digits (nat (- i)) else digits (nat i))"

text \<open>
  String escaping with \<^verbatim>\<open>ensure_ascii=True\<close> (the default): the quote and the backslash
  get a backslash, the five control characters with a short form get it, every other
  character outside the range from space to tilde becomes a \<^verbatim>\<open>\uXXXX\<close> escape with
  lower-case hexadecimal digits.
\<close>

definition hex :: "nat \<Rightarrow> char" where
  "hex n = ''0123456789abcdef'' ! n"

definition escape_char :: "char \<Rightarrow> string" where
  "escape_char c =
     (let n = (of_char c :: nat)
      in if c = CHR 0x22 then [CHR 0x5C, CHR 0x22]
         else if c = CHR 0x5C then [CHR 0x5C, CHR 0x5C]
         else if c = CHR 0x08 then [CHR 0x5C, CHR ''b'']
         else if c = CHR 0x0C then [CHR 0x5C, CHR ''f'']
         else if c = CHR 0x0A then [CHR 0x5C, CHR ''n'']
         else if c = CHR 0x0D then [CHR 0x5C, CHR ''r'']
         else if c = CHR 0x09 then [CHR 0x5C, CHR ''t'']
         else if 32 \<le> n \<and> n \<le> 126 then [c]
         else [CHR 0x5C, CHR ''u'', CHR ''0'', CHR ''0'', hex (n div 16), hex (n mod 16)])"

definition encode_str :: "string \<Rightarrow> string" where
  "encode_str s = CHR 0x22 # concat (map escape_char s) @ [CHR 0x22]"

text \<open>
  \<^verbatim>\<open>json.dumps\<close> with its default separators: \<^verbatim>\<open>", "\<close> between items and \<^verbatim>\<open>": "\<close>
  between a key and its value.
\<close>

fun json_dumps :: "json \<Rightarrow> string" where
  "json_dumps JNull = ''null''"
| "json_dumps (JBool b) = (if b then ''true'' else ''false'')"
| "json_dumps (JInt i) = int_repr i"
| "json_dumps (JStr s) = encode_str s"
| "json_dumps (JArr xs) = ''['' @ join '', '' (map json_dumps xs) @ '']''"
| "json_dumps (JObj kvs) =
     ''{'' @ join '', '' (map (\<lambda>(k, v). encode_str k @ '': '' @ json_dumps v) kvs) @ ''}''"

section \<open>The search tool (DeepSearchAgent.py, \<^verbatim>\<open>tavily_search\<close>)\<close>

text \<open>
  The dictionary \<^verbatim>\<open>mocked_data\<close> built in the handler of the third attempt.
\<close>

definition mocked_data :: json where
  \<open>mocked_data = JObj [(''results'', JArr [
     JObj [(''url'', JStr ''https://www.consumerreports.org''),
           (''content'', JStr ''Hybrids save on fuel but EVs save more long-term with $790/year fuel savings and 50% lower maintenance costs.'')],
     JObj [(''url'', JStr ''https://www.edmunds.com''),
           (''content'', JStr ''EVs offer instant acceleration, 250+ mile range; gas cars refuel faster, better for long trips.'')],
     JObj [(''url'', JStr ''https://ev-lectron.com''),
           (''content'', JStr ''EVs cost $59,205 vs. gas cars at $48,699. Battery production has emissions, but EVs are cleaner with renewable grids.'')],
     JObj [(''url'', JStr ''https://climate.mit.edu''),
           (''content'', JStr ''EVs have 40-60% lower lifecycle emissions, equivalent to 88 mpg.'')],
     JObj [(''url'', JStr ''https://www.epa.gov''),
           (''content'', JStr ''Over 61,000 EV charging stations in 2025 vs. widespread gas stations.'')]])]\<close>

text \<open>
  What the tool does to the outside, in order: a search call with its query and
  \<^verbatim>\<open>max_results\<close>, and a sleep with its length in milliseconds.
\<close>

datatype tool_event = SearchCall string nat | Sleep nat

text \<open>
  The search backend is a collaborator: for the attempt number, the query and
  \<^verbatim>\<open>max_results\<close> it says what \<^verbatim>\<open>tavily_client.search(query, max_results=5)\<close> does when
  awaited. A response that \<^verbatim>\<open>json.dumps\<close> rejects raises inside the same \<^verbatim>\<open>try\<close> and is
  an attempt that raises.
\<close>

type_synonym backend = "nat \<Rightarrow> string \<Rightarrow> nat \<Rightarrow> json call"

text \<open>
  The loop \<^verbatim>\<open>for attempt in range(3)\<close> over the attempt numbers still to run. The first
  component is \<open>None\<close> when the loop ends without leaving the function, \<open>Some (Inr s)\<close>
  for \<^verbatim>\<open>return s\<close> and \<open>Some (Inl e)\<close> for an exception the handler does not catch.
\<close>

fun tavily_search_loop ::
  "backend \<Rightarrow> string \<Rightarrow> nat list \<Rightarrow> (exn + string) option \<times> tool_event list" where
  "tavily_search_loop b query [] = (None, [])"
| "tavily_search_loop b query (attempt # rest) =
     (case wait_for 10000 (b attempt query 5) of
        Inr response \<Rightarrow> (Some (Inr (json_dumps response)), [SearchCall query 5])
      | Inl e \<Rightarrow>
          if is_Exception e then
            if attempt = 2 then (Some (Inr (json_dumps mocked_data)), [SearchCall query 5])
            else (case tavily_search_loop b query rest of
                    (r, tr) \<Rightarrow> (r, SearchCall query 5 # Sleep 1000 # tr))
          else (Some (Inl e), [SearchCall query 5]))"

definition search_failed :: string where
  "search_failed = ''Search failed: Network unreachable''"

definition tavily_search :: "backend \<Rightarrow> string \<Rightarrow> (exn + string) \<times> tool_event list" where
  "tavily_search b query =
     (case tavily_search_loop b query [0..<3] of
        (Some r, tr) \<Rightarrow> (r, tr)
      | (None, tr) \<Rightarrow> (Inr search_failed, tr))"

section \<open>The chat loops\<close>

subsection \<open>Input lines and \<^verbatim>\<open>str.lower\<close>\<close>

text \<open>
  \<^verbatim>\<open>str.lower\<close> on code points below 256: the letters A to Z and the accented capitals
  from 192 to 222 (the multiplication sign 215 apart) move up by 32, every other
  character stays.
\<close>

definition lower_char :: "char \<Rightarrow> char" where
  "lower_char c =
     (let n = (of_char c :: nat)
      in if (65 \<le> n \<and> n \<le> 90) \<or> (192 \<le> n \<and> n \<le> 222 \<and> n \<noteq> 215)
         then char_of (n + 32) else c)"

definition lower :: "string \<Rightarrow> string" where
  "lower s = map lower_char s"

subsection \<open>What a chat loop does to the outside\<close>

text \<open>
  \<open>Prompt\<close> is the prompt \<^verbatim>\<open>input\<close> writes before it reads, \<open>Print\<close> a printed line,
  \<open>RunnerRun\<close> a call of \<^verbatim>\<open>runner.run\<close> with the user's input, \<open>ClearSession\<close> the
  awaited \<^verbatim>\<open>session.clear_session()\<close>. A loop ends by returning, by an exception that
  leaves it, or it stays blocked in an await for ever.
\<close>

datatype io = Prompt string | Print string | RunnerRun string | ClearSession

datatype ending = Returned | Raised exn | Blocked

text \<open>How one pass through the body of \<^verbatim>\<open>while True\<close> leaves the body.\<close>

datatype flow = Continue | Break | Propagate exn | Stuck

text \<open>
  The runner is a collaborator: for the number of the turn and the user's input it says
  what \<^verbatim>\<open>runner.run(starting_agent=QueryAgent, input=user_input, session=session)\<close>
  does when awaited; the value is the text of \<^verbatim>\<open>result.final_output\<close>.
\<close>

type_synonym runner = "nat \<Rightarrow> string \<Rightarrow> string call"

definition EOFError :: exn where
  "EOFError = Error ''EOFError'' ''EOF when reading a line''"

definition banner :: string where
  \<open>banner = ''Start chatting (type 'exit' to quit):''\<close>

definition timeout_message :: string where
  "timeout_message = ''Agent: Request timed out. Please check your network and try again.''"

definition error_message :: "exn \<Rightarrow> string" where
  "error_message e =
     ''Agent: Error occurred: '' @ str_exn e @ ''. Please try again or check API keys.''"

subsection \<open>DeepSearchAgent.py\<close>

text \<open>
  The body of the loop after \<^verbatim>\<open>user_input = input("You: ")\<close> has read a line: the exit
  test, then the turn inside \<^verbatim>\<open>try\<close>, under \<^verbatim>\<open>asyncio.wait_for(..., timeout=30.0)\<close>, with
  the handlers for \<^verbatim>\<open>asyncio.TimeoutError\<close> and for \<^verbatim>\<open>Exception\<close> in the source's order.
\<close>

definition chat_turn :: "runner \<Rightarrow> nat \<Rightarrow> string \<Rightarrow> io list \<times> flow" where
  "chat_turn run n user_input =
     (if lower user_input = ''exit'' then ([Print ''Goodbye!'', ClearSession], Break)
      else case wait_for 30000 (run n user_input) of
             Inr final_output \<Rightarrow>
               ([RunnerRun user_input, Print (''Agent: '' @ final_output)], Continue)
           | Inl e \<Rightarrow>
               if e = TimeoutError then
                 ([RunnerRun user_input, Print timeout_message], Continue)
               else if is_Exception e then
                 ([RunnerRun user_input, Print (error_message e)], Continue)
               else ([RunnerRun user_input], Propagate e))"

text \<open>
  The loop \<^verbatim>\<open>while True\<close> over the lines still to come on standard input; at the end of
  the input \<^verbatim>\<open>input\<close> raises \<^verbatim>\<open>EOFError\<close>, outside the \<^verbatim>\<open>try\<close>. The body is a parameter,
  the three programs share the loop and differ in the body.
\<close>

fun while_true ::
  "(nat \<Rightarrow> string \<Rightarrow> io list \<times> flow) \<Rightarrow> nat \<Rightarrow> string list \<Rightarrow> io list \<times> ending" where
  "while_true body n [] = ([Prompt ''You: ''], Raised EOFError)"
| "while_true body n (user_input # rest) =
     (case body n user_input of
        (evs, Continue) \<Rightarrow>
          (case while_true body (Suc n) rest of
             (tr, e) \<Rightarrow> (Prompt ''You: '' # evs @ tr, e))
      | (evs, Break) \<Rightarrow> (Prompt ''You: '' # evs, Returned)
      | (evs, Propagate e) \<Rightarrow> (Prompt ''You: '' # evs, Raised e)
      | (evs, Stuck) \<Rightarrow> (Prompt ''You: '' # evs, Blocked))"

definition chat_loop :: "runner \<Rightarrow> string list \<Rightarrow> io list \<times> ending" where
  "chat_loop run inputs =
     (case while_true (chat_turn run) 0 inputs of (tr, e) \<Rightarrow> (Print banner # tr, e))"

subsection \<open>main.py and newAgent.py\<close>

text \<open>
  Both await \<^verbatim>\<open>runner.run\<close> directly: no \<^verbatim>\<open>wait_for\<close>, no \<^verbatim>\<open>try\<close>. main.py calls
  \<^verbatim>\<open>session.clear_session()\<close> without \<^verbatim>\<open>await\<close>: the coroutine is built and never run,
  so the session store is not touched. newAgent.py awaits it.
\<close>

fun unguarded_turn :: "string \<Rightarrow> string call \<Rightarrow> io list \<times> flow" where
  "unguarded_turn user_input (Returns d final_output) =
     ([RunnerRun user_input, Print (''Agent: '' @ final_output)], Continue)"
| "unguarded_turn user_input (Raises d e) = ([RunnerRun user_input], Propagate e)"
| "unguarded_turn user_input Never = ([RunnerRun user_input], Stuck)"

definition main_chat_turn :: "runner \<Rightarrow> nat \<Rightarrow> string \<Rightarrow> io list \<times> flow" where
  "main_chat_turn run n user_input =
     (if lower user_input = ''exit'' then ([Print ''Goodbye!''], Break)
      else unguarded_turn user_input (run n user_input))"

definition main_chat_loop :: "runner \<Rightarrow> string list \<Rightarrow> io list \<times> ending" where
  "main_chat_loop run inputs =
     (case while_true (main_chat_turn run) 0 inputs of (tr, e) \<Rightarrow> (Print banner # tr, e))"

definition newAgent_chat_turn :: "runner \<Rightarrow> nat \<Rightarrow> string \<Rightarrow> io list \<times> flow" where
  "newAgent_chat_turn run n user_input =
     (if lower user_input = ''exit'' then ([Print ''Goodbye!'', ClearSession], Break)
      else unguarded_turn user_input (run n user_input))"

definition newAgent_chat_loop :: "runner \<Rightarrow> string list \<Rightarrow> io list \<times> ending" where
  "newAgent_chat_loop run inputs =
     (case while_true (newAgent_chat_turn run) 0 inputs of (tr, e) \<Rightarrow> (Print banner # tr, e))"

section \<open>Startup\<close>

text \<open>
  The environment is the process environment after \<^verbatim>\<open>load_dotenv()\<close>, a dictionary from
  names to strings. \<^verbatim>\<open>os.getenv(k)\<close> is \<^verbatim>\<open>None\<close> for a name that is not set, and
  \<^verbatim>\<open>not v\<close> holds for \<^verbatim>\<open>None\<close> and for the empty string.
\<close>

type_synonym environ = "string \<rightharpoonup> string"

fun falsy :: "string option \<Rightarrow> bool" where
  "falsy None = True"
| "falsy (Some v) = (v = [])"

record config =
  GEMINI_API_KEY :: "string option"
  TAVILY_API_KEY :: "string option"

definition check_keys :: "environ \<Rightarrow> exn + config" where
  "check_keys env =
     (if falsy (env ''GEMINI_API_KEY'') \<or> falsy (env ''TAVILY_API_KEY'')
      then Inl (Error ''ValueError'' ''API KEY MISSING'')
      else Inr \<lparr>GEMINI_API_KEY = env ''GEMINI_API_KEY'',
                TAVILY_API_KEY = env ''TAVILY_API_KEY''\<rparr>)"

text \<open>
  DeepSearchAgent.py and newAgent.py first store
  \<^verbatim>\<open>os.getenv("OPENAI_API_KEY", "")\<close> under \<^verbatim>\<open>OPENAI_API_KEY\<close>, then read and test the two
  keys.
\<close>

definition startup :: "environ \<Rightarrow> exn + config" where
  "startup env =
     check_keys (env(''OPENAI_API_KEY'' \<mapsto>
       (case env ''OPENAI_API_KEY'' of None \<Rightarrow> [] | Some v \<Rightarrow> v)))"

text \<open>
  main.py stores \<^verbatim>\<open>os.getenv("OPENAI_API_KEY")\<close> with no default: assigning \<^verbatim>\<open>None\<close> to
  an entry of \<^verbatim>\<open>os.environ\<close> raises \<^verbatim>\<open>TypeError\<close>.
\<close>

definition main_startup :: "environ \<Rightarrow> exn + config" where
  "main_startup env =
     (case env ''OPENAI_API_KEY'' of
        None \<Rightarrow> Inl (Error ''TypeError'' ''str expected, not NoneType'')
      | Some v \<Rightarrow> check_keys (env(''OPENAI_API_KEY'' \<mapsto> v)))"

text \<open>
  Each file run as a script: the module level first, then
  \<^verbatim>\<open>asyncio.run(chat_loop())\<close>. An exception at module level ends the process before the
  loop is entered.
\<close>

definition DeepSearchAgent :: "environ \<Rightarrow> runner \<Rightarrow> string list \<Rightarrow> io list \<times> ending" where
  "DeepSearchAgent env run inputs =
     (case startup env of Inl e \<Rightarrow> ([], Raised e) | Inr cfg \<Rightarrow> chat_loop run inputs)"

definition main :: "environ \<Rightarrow> runner \<Rightarrow> string list \<Rightarrow> io list \<times> ending" where
  "main env run inputs =
     (case main_startup env of Inl e \<Rightarrow> ([], Raised e) | Inr cfg \<Rightarrow> main_chat_loop run inputs)"

definition newAgent :: "environ \<Rightarrow> runner \<Rightarrow> string list \<Rightarrow> io list \<times> ending" where
  "newAgent env run inputs =
     (case startup env of Inl e \<Rightarrow> ([], Raised e) | Inr cfg \<Rightarrow> newAgent_chat_loop run inputs)"

section \<open>Notions the properties are stated with\<close>

text \<open>
  An attempt of the search tool fails when its call raises an exception of class
  \<^verbatim>\<open>Exception\<close> within the ten seconds, or has not finished when they are over.
\<close>

fun attempt_fails :: "json call \<Rightarrow> bool" where
  "attempt_fails (Returns d r) = (10000 \<le> d)"
| "attempt_fails (Raises d e) = (10000 \<le> d \<or> is_Exception e)"
| "attempt_fails Never = True"

text \<open>
  Modelled from the spec: the response of the search backend, which is not part of the
  repository. Its interface is given as
  \<^verbatim>\<open>search(query, max_results) -> {results: [{url, content}]}\<close>: an object whose field
  \<^verbatim>\<open>results\<close> holds a list of objects with the fields \<^verbatim>\<open>url\<close> and \<^verbatim>\<open>content\<close>.
\<close>

fun is_result_entry :: "json \<Rightarrow> bool" where
  "is_result_entry (JObj kvs) =
     (distinct (map fst kvs) \<and> set (map fst kvs) = {''url'', ''content''})"
| "is_result_entry j = False"

fun all_entries :: "json list \<Rightarrow> bool" where
  "all_entries [] = True"
| "all_entries (e # es) = (is_result_entry e \<and> all_entries es)"

fun is_result_set :: "json \<Rightarrow> bool" where
  "is_result_set (JObj kvs) =
     (case map_of kvs ''results'' of Some (JArr es) \<Rightarrow> all_entries es | _ \<Rightarrow> False)"
| "is_result_set j = False"

text \<open>The inputs with which \<^verbatim>\<open>runner.run\<close> was called, in order.\<close>

fun runs :: "io list \<Rightarrow> string list" where
  "runs [] = []"
| "runs (RunnerRun l # tr) = l # runs tr"
| "runs (ev # tr) = runs tr"

subsection \<open>Concrete collaborators and inputs\<close>

definition failing_backend :: backend where
  "failing_backend attempt query max_results =
     (if attempt = 0 then Never
      else if attempt = 1 then Raises 120 (Error ''ConnectionError'' ''Network unreachable'')
      else Returns 10000 JNull)"

definition cancelled_backend :: backend where
  "cancelled_backend attempt query max_results = Raises 5 CancelledError"

definition flaky_backend :: backend where
  "flaky_backend attempt query max_results =
     (if attempt = 0 then Never
      else Returns 850 (JObj [(''results'', JArr [
        JObj [(''url'', JStr ''https://www.epa.gov''), (''content'', JStr query)]])]))"

definition dead_backend :: backend where
  "dead_backend attempt query max_results = Never"

definition slow_runner :: runner where
  "slow_runner n user_input = Returns 31000 ''EVs are cheaper to run.''"

definition crashing_runner :: runner where
  "crashing_runner n user_input = Raises 40 (Error ''RuntimeError'' ''model overloaded'')"

definition interrupted_runner :: runner where
  "interrupted_runner n user_input = Raises 40 KeyboardInterrupt"

definition echo_runner :: runner where
  "echo_runner n user_input = Returns 100 (''You asked: '' @ user_input)"

definition moody_runner :: runner where
  "moody_runner n user_input =
     (if n = 0 then Never
      else if n = 1 then Raises 40 (Error ''RuntimeError'' ''model overloaded'')
      else Returns 100 ''Hi Wajid!'')"

definition empty_key_environ :: environ where
  "empty_key_environ = [''GEMINI_API_KEY'' \<mapsto> [], ''TAVILY_API_KEY'' \<mapsto> ''tvly-123'']"

definition full_environ :: environ where
  "full_environ = [''GEMINI_API_KEY'' \<mapsto> ''AIza-123'', ''TAVILY_API_KEY'' \<mapsto> ''tvly-123'']"

definition no_tavily_environ :: environ where
  "no_tavily_environ = [''GEMINI_API_KEY'' \<mapsto> ''AIza-123'']"

section \<open>Properties of the search tool\<close>

lemma upt3: "[0..<3] = [0, 1, 2]"
  by (simp add: upt_rec)

lemma digits_nonempty: "digits n \<noteq> []"
  by (subst digits.simps) simp

lemma digit_char: "n < 10 \<Longrightarrow> ''0123456789'' ! n \<in> set ''0123456789''"
  by (rule nth_mem) simp

lemma hd_digits: "hd (digits n) \<in> set ''0123456789''"
proof (induction n rule: digits.induct)
  case (1 n)
  show ?case
  proof (cases "n < 10")
    case True
    then show ?thesis using digit_char[of n] by (subst digits.simps) simp
  next
    case False
    with 1 digits_nonempty[of "n div 10"] show ?thesis
      by (subst digits.simps) (simp add: hd_append)
  qed
qed

lemma hd_int_repr: "hd (int_repr i) \<in> set ''-0123456789''"
  using hd_digits[of "nat i"] hd_digits[of "nat (- i)"] by (auto simp: int_repr_def)

text \<open>
  Whatever \<^verbatim>\<open>json.dumps\<close> writes starts with the first character of a JSON text, and
  the text of the post-loop return starts with a capital S.
\<close>

lemma hd_json_dumps: \<open>hd (json_dumps j) \<in> set ''ntf-0123456789"[{''\<close>
proof (cases j)
  case (JInt i)
  then show ?thesis using hd_int_repr[of i] by auto
qed (auto simp: encode_str_def)

lemma json_dumps_not_search_failed: "json_dumps j \<noteq> search_failed"
proof
  assume "json_dumps j = search_failed"
  then have "hd (json_dumps j) = CHR ''S''" by (simp add: search_failed_def)
  with hd_json_dumps[of j] show False by simp
qed

lemma attempt_fails_iff:
  "attempt_fails c \<longleftrightarrow> (\<exists>e. wait_for 10000 c = Inl e \<and> is_Exception e)"
  by (cases c) auto

lemma wait_for_Inr: "wait_for t c = Inr r \<longleftrightarrow> (\<exists>d. c = Returns d r \<and> d < t)"
  by (cases c) auto

text \<open>The three passes of the loop, written out.\<close>

lemma tavily_search_unfold:
  "tavily_search b q =
    (case wait_for 10000 (b 0 q 5) of
       Inr r \<Rightarrow> (Inr (json_dumps r), [SearchCall q 5])
     | Inl e \<Rightarrow>
        (if \<not> is_Exception e then (Inl e, [SearchCall q 5])
         else (case wait_for 10000 (b 1 q 5) of
          Inr r \<Rightarrow> (Inr (json_dumps r), [SearchCall q 5, Sleep 1000, SearchCall q 5])
        | Inl e \<Rightarrow>
           (if \<not> is_Exception e then (Inl e, [SearchCall q 5, Sleep 1000, SearchCall q 5])
            else (case wait_for 10000 (b 2 q 5) of
             Inr r \<Rightarrow> (Inr (json_dumps r),
               [SearchCall q 5, Sleep 1000, SearchCall q 5, Sleep 1000, SearchCall q 5])
           | Inl e \<Rightarrow>
              (if \<not> is_Exception e then (Inl e,
               [SearchCall q 5, Sleep 1000, SearchCall q 5, Sleep 1000, SearchCall q 5])
              else (Inr (json_dumps mocked_data),
               [SearchCall q 5, Sleep 1000, SearchCall q 5, Sleep 1000, SearchCall q 5])))))))"
  by (simp add: tavily_search_def upt3 split: sum.splits)

lemma tavily_search_all_fail:
  assumes "attempt_fails (b 0 q 5)" "attempt_fails (b 1 q 5)" "attempt_fails (b 2 q 5)"
  shows "tavily_search b q =
      (Inr (json_dumps mocked_data),
       [SearchCall q 5, Sleep 1000, SearchCall q 5, Sleep 1000, SearchCall q 5])"
  unfolding tavily_search_unfold using assms by (auto simp: attempt_fails_iff)

lemma tavily_search_loop_returns: "fst (tavily_search_loop b q [0..<3]) \<noteq> None"
  by (simp add: upt3 split: sum.splits prod.splits)

lemma tavily_search_result:
  "(\<exists>e. fst (tavily_search b q) = Inl e \<and> \<not> is_Exception e)
   \<or> (\<exists>i d r. i < 3 \<and> d < 10000 \<and> b i q 5 = Returns d r
         \<and> fst (tavily_search b q) = Inr (json_dumps r))
   \<or> fst (tavily_search b q) = Inr (json_dumps mocked_data)"
proof (cases "wait_for 10000 (b 0 q 5)")
  case (Inr r)
  then obtain d where "b 0 q 5 = Returns d r" "d < 10000" by (auto simp: wait_for_Inr)
  moreover from Inr have "fst (tavily_search b q) = Inr (json_dumps r)"
    by (simp add: tavily_search_unfold)
  ultimately show ?thesis by (intro disjI2 disjI1 exI[of _ 0] exI[of _ d] exI[of _ r]) simp
next
  case e0: (Inl e0)
  show ?thesis
  proof (cases "is_Exception e0")
    case False
    with e0 show ?thesis by (simp add: tavily_search_unfold)
  next
    case x0: True
    show ?thesis
    proof (cases "wait_for 10000 (b 1 q 5)")
      case (Inr r)
      then obtain d where "b 1 q 5 = Returns d r" "d < 10000" by (auto simp: wait_for_Inr)
      moreover from Inr e0 x0 have "fst (tavily_search b q) = Inr (json_dumps r)"
        by (simp add: tavily_search_unfold)
      ultimately show ?thesis
        by (intro disjI2 disjI1 exI[of _ 1] exI[of _ d] exI[of _ r]) simp
    next
      case e1: (Inl e1)
      show ?thesis
      proof (cases "is_Exception e1")
        case False
        with e0 x0 e1 show ?thesis by (simp add: tavily_search_unfold)
      next
        case x1: True
        show ?thesis
        proof (cases "wait_for 10000 (b 2 q 5)")
          case (Inr r)
          then obtain d where "b 2 q 5 = Returns d r" "d < 10000"
            by (auto simp: wait_for_Inr)
          moreover from Inr e0 x0 e1 x1 have "fst (tavily_search b q) = Inr (json_dumps r)"
            by (simp add: tavily_search_unfold)
          ultimately show ?thesis
            by (intro disjI2 disjI1 exI[of _ 2] exI[of _ d] exI[of _ r]) simp
        next
          case e2: (Inl e2)
          with e0 x0 e1 x1 show ?thesis by (cases "is_Exception e2") (simp_all add: tavily_search_unfold)
        qed
      qed
    qed
  qed
qed

lemma mocked_data_text:
  \<open>json_dumps mocked_data =
     ''{"results": [{"url": "https://www.consumerreports.org", "content": "Hy'' @
     ''brids save on fuel but EVs save more long-term with $790/year fuel sav'' @
     ''ings and 50% lower maintenance costs."}, {"url": "https://www.edmunds.'' @
     ''com", "content": "EVs offer instant acceleration, 250+ mile range; gas'' @
     '' cars refuel faster, better for long trips."}, {"url": "https://ev-lec'' @
     ''tron.com", "content": "EVs cost $59,205 vs. gas cars at $48,699. Batte'' @
     ''ry production has emissions, but EVs are cleaner with renewable grids.'' @
     ''"}, {"url": "https://climate.mit.edu", "content": "EVs have 40-60% low'' @
     ''er lifecycle emissions, equivalent to 88 mpg."}, {"url": "https://www.'' @
     ''epa.gov", "content": "Over 61,000 EV charging stations in 2025 vs. wid'' @
     ''espread gas stations."}]}''\<close>
  by (simp add: mocked_data_def encode_str_def escape_char_def)

lemma mocked_data_shape: "is_result_set mocked_data"
  by (simp add: mocked_data_def)


text \<open>
  C2, as amended. For every backend and query: the tool makes at most three search
  calls, each with the query and \<^verbatim>\<open>max_results=5\<close>, and nothing else but sleeps of one
  second; every attempt has its own ten seconds (a call that returns within them ends
  the tool with the serialized response, whatever the earlier attempts took); after a
  failing first or second attempt it sleeps one second and tries again; after three
  failing attempts it returns the serialized fallback data with no further sleep; and
  no exception of class \<^verbatim>\<open>Exception\<close> leaves the tool.
\<close>

theorem tavily_search_retry:
  "count_list (snd (tavily_search b q)) (SearchCall q 5) \<le> 3
   \<and> set (snd (tavily_search b q)) \<subseteq> {SearchCall q 5, Sleep 1000}
   \<and> (\<forall>d r. b 0 q 5 = Returns d r \<and> d < 10000 \<longrightarrow>
         tavily_search b q = (Inr (json_dumps r), [SearchCall q 5]))
   \<and> (\<forall>d r. attempt_fails (b 0 q 5) \<and> b 1 q 5 = Returns d r \<and> d < 10000 \<longrightarrow>
         tavily_search b q =
           (Inr (json_dumps r), [SearchCall q 5, Sleep 1000, SearchCall q 5]))
   \<and> (\<forall>d r. attempt_fails (b 0 q 5) \<and> attempt_fails (b 1 q 5)
           \<and> b 2 q 5 = Returns d r \<and> d < 10000 \<longrightarrow>
         tavily_search b q =
           (Inr (json_dumps r),
            [SearchCall q 5, Sleep 1000, SearchCall q 5, Sleep 1000, SearchCall q 5]))
   \<and> (attempt_fails (b 0 q 5) \<and> attempt_fails (b 1 q 5) \<and> attempt_fails (b 2 q 5) \<longrightarrow>
         tavily_search b q =
           (Inr (json_dumps mocked_data),
            [SearchCall q 5, Sleep 1000, SearchCall q 5, Sleep 1000, SearchCall q 5]))
   \<and> (\<forall>e. fst (tavily_search b q) = Inl e \<longrightarrow> \<not> is_Exception e)"
proof -
  have calls: "count_list (snd (tavily_search b q)) (SearchCall q 5) \<le> 3"
    unfolding tavily_search_unfold by (simp split: sum.splits)
  have events: "set (snd (tavily_search b q)) \<subseteq> {SearchCall q 5, Sleep 1000}"
    unfolding tavily_search_unfold by (simp split: sum.splits)
  have first: "tavily_search b q = (Inr (json_dumps r), [SearchCall q 5])"
    if "b 0 q 5 = Returns d r" "d < 10000" for d r
    unfolding tavily_search_unfold using that by simp
  have second: "tavily_search b q =
      (Inr (json_dumps r), [SearchCall q 5, Sleep 1000, SearchCall q 5])"
    if "attempt_fails (b 0 q 5)" "b 1 q 5 = Returns d r" "d < 10000" for d r
    unfolding tavily_search_unfold using that by (auto simp: attempt_fails_iff)
  have third: "tavily_search b q =
      (Inr (json_dumps r),
       [SearchCall q 5, Sleep 1000, SearchCall q 5, Sleep 1000, SearchCall q 5])"
    if "attempt_fails (b 0 q 5)" "attempt_fails (b 1 q 5)" "b 2 q 5 = Returns d r" "d < 10000"
    for d r
    unfolding tavily_search_unfold using that by (auto simp: attempt_fails_iff)
  have escapes: "\<not> is_Exception e" if "fst (tavily_search b q) = Inl e" for e
    using that unfolding tavily_search_unfold by (auto split: sum.splits if_splits)
  show ?thesis
  proof (intro conjI allI impI)
    show "count_list (snd (tavily_search b q)) (SearchCall q 5) \<le> 3" by (rule calls)
    show "set (snd (tavily_search b q)) \<subseteq> {SearchCall q 5, Sleep 1000}" by (rule events)
  next
    fix d r assume "b 0 q 5 = Returns d r \<and> d < 10000"
    then show "tavily_search b q = (Inr (json_dumps r), [SearchCall q 5])"
      by (simp add: first)
  next
    fix d r assume "attempt_fails (b 0 q 5) \<and> b 1 q 5 = Returns d r \<and> d < 10000"
    then show "tavily_search b q =
        (Inr (json_dumps r), [SearchCall q 5, Sleep 1000, SearchCall q 5])"
      by (simp add: second)
  next
    fix d r
    assume "attempt_fails (b 0 q 5) \<and> attempt_fails (b 1 q 5)
        \<and> b 2 q 5 = Returns d r \<and> d < 10000"
    then show "tavily_search b q =
        (Inr (json_dumps r),
         [SearchCall q 5, Sleep 1000, SearchCall q 5, Sleep 1000, SearchCall q 5])"
      by (simp add: third)
  next
    assume "attempt_fails (b 0 q 5) \<and> attempt_fails (b 1 q 5) \<and> attempt_fails (b 2 q 5)"
    then show "tavily_search b q =
        (Inr (json_dumps mocked_data),
         [SearchCall q 5, Sleep 1000, SearchCall q 5, Sleep 1000, SearchCall q 5])"
      by (simp add: tavily_search_all_fail)
  next
    fix e assume "fst (tavily_search b q) = Inl e"
    then show "\<not> is_Exception e" by (rule escapes)
  qed
qed

text \<open>
  The theorem at a backend whose first call never completes, whose second raises and
  whose third returns only when the ten seconds are over.
\<close>

theorem tavily_search_retry_witness:
  "attempt_fails (failing_backend 0 ''compare electric vs gas cars'' 5)
   \<and> attempt_fails (failing_backend 1 ''compare electric vs gas cars'' 5)
   \<and> attempt_fails (failing_backend 2 ''compare electric vs gas cars'' 5)
   \<and> tavily_search failing_backend ''compare electric vs gas cars'' =
       (Inr (json_dumps mocked_data),
        [SearchCall ''compare electric vs gas cars'' 5, Sleep 1000, SearchCall ''compare electric vs gas cars'' 5, Sleep 1000,
         SearchCall ''compare electric vs gas cars'' 5])"
  using tavily_search_retry [of failing_backend "''compare electric vs gas cars''"]
  by (simp add: failing_backend_def)

text \<open>
  C2 as stated does not hold: a cancellation that reaches the first search call is not
  an instance of \<^verbatim>\<open>Exception\<close>; the handler does not catch it and it leaves the tool.
\<close>

theorem tavily_search_cancelled:
  "fst (tavily_search cancelled_backend ''compare electric vs gas cars'') = Inl CancelledError"
  by (simp add: tavily_search_unfold cancelled_backend_def)

text \<open>
  C4. For every backend and query the loop over the three attempts never ends without
  leaving the function, so the return after the loop is not reached; the tool never
  returns the text \<^verbatim>\<open>Search failed: Network unreachable\<close>; what it returns is the
  serialized response of an attempt that came back within its ten seconds, or the
  serialized fallback data (or it is left by a signal outside \<^verbatim>\<open>Exception\<close>).
\<close>

theorem search_failed_unreachable:
  "fst (tavily_search_loop b q [0..<3]) \<noteq> None
   \<and> fst (tavily_search b q) \<noteq> Inr search_failed
   \<and> ((\<exists>e. fst (tavily_search b q) = Inl e \<and> \<not> is_Exception e)
      \<or> (\<exists>i d r. i < 3 \<and> d < 10000 \<and> b i q 5 = Returns d r
            \<and> fst (tavily_search b q) = Inr (json_dumps r))
      \<or> fst (tavily_search b q) = Inr (json_dumps mocked_data))"
proof (intro conjI)
  show "fst (tavily_search_loop b q [0..<3]) \<noteq> None"
    by (rule tavily_search_loop_returns)
  show res: "(\<exists>e. fst (tavily_search b q) = Inl e \<and> \<not> is_Exception e)
      \<or> (\<exists>i d r. i < 3 \<and> d < 10000 \<and> b i q 5 = Returns d r
            \<and> fst (tavily_search b q) = Inr (json_dumps r))
      \<or> fst (tavily_search b q) = Inr (json_dumps mocked_data)"
    by (rule tavily_search_result)
  from res show "fst (tavily_search b q) \<noteq> Inr search_failed"
    by (auto simp: json_dumps_not_search_failed)
qed

text \<open>
  The theorem at a backend whose first call never completes and whose second returns
  one result after 850 milliseconds.
\<close>

theorem search_failed_unreachable_witness:
  "fst (tavily_search_loop flaky_backend ''ev range'' [0..<3]) \<noteq> None
   \<and> fst (tavily_search flaky_backend ''ev range'') \<noteq> Inr search_failed
   \<and> flaky_backend 1 ''ev range'' 5 =
       Returns 850 (JObj [(''results'', JArr [
         JObj [(''url'', JStr ''https://www.epa.gov''), (''content'', JStr ''ev range'')]])])
   \<and> fst (tavily_search flaky_backend ''ev range'') =
       Inr (json_dumps (JObj [(''results'', JArr [
         JObj [(''url'', JStr ''https://www.epa.gov''), (''content'', JStr ''ev range'')]])]))"
  using search_failed_unreachable [of flaky_backend "''ev range''"]
  by (simp add: tavily_search_unfold flaky_backend_def)

text \<open>
  C6. The fallback data have the shape of a successful response: an object whose field
  \<^verbatim>\<open>results\<close> holds a list of objects, each with exactly the fields \<^verbatim>\<open>url\<close> and
  \<^verbatim>\<open>content\<close>. When all three attempts fail the tool returns their serialization, which
  is the JSON text written out below.
\<close>

theorem fallback_has_result_shape:
  \<open>is_result_set mocked_data
   \<and> (attempt_fails (b 0 q 5) \<and> attempt_fails (b 1 q 5) \<and> attempt_fails (b 2 q 5) \<longrightarrow>
        fst (tavily_search b q) = Inr (json_dumps mocked_data))
   \<and> json_dumps mocked_data =
     ''{"results": [{"url": "https://www.consumerreports.org", "content": "Hy'' @
     ''brids save on fuel but EVs save more long-term with $790/year fuel sav'' @
     ''ings and 50% lower maintenance costs."}, {"url": "https://www.edmunds.'' @
     ''com", "content": "EVs offer instant acceleration, 250+ mile range; gas'' @
     '' cars refuel faster, better for long trips."}, {"url": "https://ev-lec'' @
     ''tron.com", "content": "EVs cost $59,205 vs. gas cars at $48,699. Batte'' @
     ''ry production has emissions, but EVs are cleaner with renewable grids.'' @
     ''"}, {"url": "https://climate.mit.edu", "content": "EVs have 40-60% low'' @
     ''er lifecycle emissions, equivalent to 88 mpg."}, {"url": "https://www.'' @
     ''epa.gov", "content": "Over 61,000 EV charging stations in 2025 vs. wid'' @
     ''espread gas stations."}]}''\<close>
  by (simp add: mocked_data_shape mocked_data_text tavily_search_all_fail)

text \<open>The theorem at a backend that never answers.\<close>

theorem fallback_has_result_shape_witness:
  \<open>attempt_fails (dead_backend 0 ''hybrid cars'' 5)
   \<and> attempt_fails (dead_backend 1 ''hybrid cars'' 5)
   \<and> attempt_fails (dead_backend 2 ''hybrid cars'' 5)
   \<and> is_result_set mocked_data
   \<and> fst (tavily_search dead_backend ''hybrid cars'') = Inr (json_dumps mocked_data)\<close>
  using fallback_has_result_shape [of dead_backend "''hybrid cars''"]
  by (simp add: dead_backend_def)

section \<open>Properties of the chat loops\<close>

lemma runs_append: "runs (xs @ ys) = runs xs @ runs ys"
  by (induction xs rule: runs.induct) auto

lemma wait_for_exceeds: "exceeds c t \<Longrightarrow> wait_for t c = Inl TimeoutError"
  by (cases c) auto

lemma lower_EXIT: "lower ''EXIT'' = ''exit''"
  by code_simp

lemma lower_Exit: "lower ''Exit'' = ''exit''"
  by code_simp

lemma lower_exit: "lower ''exit'' = ''exit''"
  by code_simp

lemma lower_hi: "lower ''hi'' \<noteq> ''exit''"
  by (simp add: lower_def)

lemma lower_question: "lower ''compare electric vs gas cars'' \<noteq> ''exit''"
  by (simp add: lower_def)

lemma chat_turn_exit:
  "lower l = ''exit'' \<Longrightarrow> chat_turn run n l = ([Print ''Goodbye!'', ClearSession], Break)"
  by (simp add: chat_turn_def)

lemma chat_turn_caught:
  assumes "lower l \<noteq> ''exit''" and "wait_for 30000 (run n l) = Inl e" and "is_Exception e"
  shows "chat_turn run n l =
    ([RunnerRun l, Print (if e = TimeoutError then timeout_message else error_message e)],
     Continue)"
  using assms by (simp add: chat_turn_def)

lemma chat_turn_answer:
  assumes "lower l \<noteq> ''exit''" and "wait_for 30000 (run n l) = Inr out"
  shows "chat_turn run n l = ([RunnerRun l, Print (''Agent: '' @ out)], Continue)"
  using assms by (simp add: chat_turn_def)

lemma chat_turn_runs:
  "lower l \<noteq> ''exit'' \<Longrightarrow> runs (fst (chat_turn run n l)) = [l]"
  by (simp add: chat_turn_def split: sum.splits)

lemma unguarded_turn_runs: "runs (fst (unguarded_turn l c)) = [l]"
  by (cases c) simp_all

text \<open>
  When the runner raises nothing outside \<^verbatim>\<open>Exception\<close>, the loop of
  DeepSearchAgent.py runs one turn for every line before the first exit line and ends
  there, or at the end of the input.
\<close>

lemma while_true_chat_turn:
  assumes "\<forall>n l e. wait_for 30000 (run n l) = Inl e \<longrightarrow> is_Exception e"
  shows "snd (while_true (chat_turn run) n inputs) =
           (if \<exists>l \<in> set inputs. lower l = ''exit'' then Returned else Raised EOFError)
         \<and> runs (fst (while_true (chat_turn run) n inputs)) =
           takeWhile (\<lambda>l. lower l \<noteq> ''exit'') inputs"
proof (induction inputs arbitrary: n)
  case Nil
  show ?case by simp
next
  case (Cons l ls)
  show ?case
  proof (cases "lower l = ''exit''")
    case True
    then show ?thesis by (simp add: chat_turn_exit)
  next
    case False
    show ?thesis
    proof (cases "wait_for 30000 (run n l)")
      case (Inl e)
      with assms have "is_Exception e" by blast
      with False Inl have "chat_turn run n l =
        ([RunnerRun l, Print (if e = TimeoutError then timeout_message else error_message e)],
         Continue)"
        by (rule chat_turn_caught)
      with Cons[of "Suc n"] False show ?thesis
        by (simp add: case_prod_beta)
    next
      case (Inr out)
      with False have "chat_turn run n l = ([RunnerRun l, Print (''Agent: '' @ out)], Continue)"
        by (rule chat_turn_answer)
      with Cons[of "Suc n"] False show ?thesis
        by (simp add: case_prod_beta)
    qed
  qed
qed

lemma moody_runner_raises:
  "\<forall>n l e. wait_for 30000 (moody_runner n l) = Inl e \<longrightarrow> is_Exception e"
  by (auto simp: moody_runner_def split: if_splits)

text \<open>
  C5, as amended. In the chat loop of DeepSearchAgent.py an exception of class
  \<^verbatim>\<open>Exception\<close> raised while a turn is processed is caught at the turn: the turn prints
  one line of text (the timeout message for a timeout, the error message otherwise) and
  the loop goes on with the next line. When the runner raises nothing outside
  \<^verbatim>\<open>Exception\<close>, the whole session runs one turn for every line before the first exit
  line and ends only by that line or by the end of the input. In the chat loops of
  main.py and newAgent.py an exception raised by the runner leaves the loop.
\<close>

theorem turn_exceptions_become_text:
  "(\<forall>e. lower l \<noteq> ''exit'' \<and> wait_for 30000 (run n l) = Inl e \<and> is_Exception e \<longrightarrow>
      while_true (chat_turn run) n (l # rest) =
        (Prompt ''You: '' # RunnerRun l
           # Print (if e = TimeoutError then timeout_message else error_message e)
           # fst (while_true (chat_turn run) (Suc n) rest),
         snd (while_true (chat_turn run) (Suc n) rest)))
   \<and> ((\<forall>n l e. wait_for 30000 (run n l) = Inl e \<longrightarrow> is_Exception e) \<longrightarrow>
        snd (chat_loop run inputs) =
          (if \<exists>l \<in> set inputs. lower l = ''exit'' then Returned else Raised EOFError)
        \<and> runs (fst (chat_loop run inputs)) = takeWhile (\<lambda>l. lower l \<noteq> ''exit'') inputs)
   \<and> (\<forall>d e. lower l \<noteq> ''exit'' \<and> run n l = Raises d e \<longrightarrow>
        while_true (main_chat_turn run) n (l # rest) =
          ([Prompt ''You: '', RunnerRun l], Raised e)
        \<and> while_true (newAgent_chat_turn run) n (l # rest) =
          ([Prompt ''You: '', RunnerRun l], Raised e))"
proof (intro conjI allI impI)
  fix d e
  assume a: "lower l \<noteq> ''exit'' \<and> run n l = Raises d e"
  then show "while_true (main_chat_turn run) n (l # rest) =
          ([Prompt ''You: '', RunnerRun l], Raised e)"
    by (simp add: main_chat_turn_def)
  from a show "while_true (newAgent_chat_turn run) n (l # rest) =
          ([Prompt ''You: '', RunnerRun l], Raised e)"
    by (simp add: newAgent_chat_turn_def)
next
  fix e
  assume "lower l \<noteq> ''exit'' \<and> wait_for 30000 (run n l) = Inl e \<and> is_Exception e"
  then have "chat_turn run n l =
      ([RunnerRun l, Print (if e = TimeoutError then timeout_message else error_message e)],
       Continue)"
    by (simp add: chat_turn_caught)
  then show "while_true (chat_turn run) n (l # rest) =
        (Prompt ''You: '' # RunnerRun l
           # Print (if e = TimeoutError then timeout_message else error_message e)
           # fst (while_true (chat_turn run) (Suc n) rest),
         snd (while_true (chat_turn run) (Suc n) rest))"
    by (simp add: case_prod_beta)
next
  assume h: "\<forall>n l e. wait_for 30000 (run n l) = Inl e \<longrightarrow> is_Exception e"
  from while_true_chat_turn[OF h, of 0 inputs]
  show "snd (chat_loop run inputs) =
          (if \<exists>l \<in> set inputs. lower l = ''exit'' then Returned else Raised EOFError)"
    by (simp add: chat_loop_def case_prod_beta)
  from while_true_chat_turn[OF h, of 0 inputs]
  show "runs (fst (chat_loop run inputs)) = takeWhile (\<lambda>l. lower l \<noteq> ''exit'') inputs"
    by (simp add: chat_loop_def case_prod_beta)
qed

text \<open>
  The theorem at a runner that hangs in the first turn, raises \<^verbatim>\<open>RuntimeError\<close> in the
  second and answers from the third on.
\<close>

theorem turn_exceptions_become_text_witness:
  "wait_for 30000 (moody_runner 1 ''best hybrid'') =
     Inl (Error ''RuntimeError'' ''model overloaded'')
   \<and> is_Exception (Error ''RuntimeError'' ''model overloaded'')
   \<and> chat_turn moody_runner 1 ''best hybrid'' =
       ([RunnerRun ''best hybrid'',
         Print ''Agent: Error occurred: model overloaded. Please try again or check API keys.''],
        Continue)
   \<and> snd (chat_loop moody_runner [''compare electric vs gas cars'', ''best hybrid'', ''hi'', ''exit''])
       = Returned
   \<and> runs (fst (chat_loop moody_runner
        [''compare electric vs gas cars'', ''best hybrid'', ''hi'', ''exit'']))
       = [''compare electric vs gas cars'', ''best hybrid'', ''hi'']"
proof -
  have a: "lower ''best hybrid'' \<noteq> ''exit''" by (simp add: lower_def)
  have b: "wait_for 30000 (moody_runner 1 ''best hybrid'') =
     Inl (Error ''RuntimeError'' ''model overloaded'')"
    by (simp add: moody_runner_def)
  have c: "chat_turn moody_runner 1 ''best hybrid'' =
       ([RunnerRun ''best hybrid'',
         Print ''Agent: Error occurred: model overloaded. Please try again or check API keys.''],
        Continue)"
    using a b by (simp add: chat_turn_def error_message_def)
  have d: "takeWhile (\<lambda>l. lower l \<noteq> ''exit'')
        [''compare electric vs gas cars'', ''best hybrid'', ''hi'', ''exit'']
       = [''compare electric vs gas cars'', ''best hybrid'', ''hi'']"
    using a by (simp add: lower_exit lower_hi lower_question)
  from turn_exceptions_become_text
    [of "''best hybrid''" moody_runner 1 "[]"
        "[''compare electric vs gas cars'', ''best hybrid'', ''hi'', ''exit'']"]
    moody_runner_raises b c d
  show ?thesis by (simp add: lower_exit)
qed

text \<open>
  C5 as stated does not hold. In main.py the turn is awaited with no handler around it:
  an exception of the runner leaves the loop and ends the process. In DeepSearchAgent.py
  a \<^verbatim>\<open>KeyboardInterrupt\<close> during a turn is not an instance of \<^verbatim>\<open>Exception\<close> and leaves
  the loop as well.
\<close>

theorem turn_exception_crosses_boundary:
  "main_chat_loop crashing_runner [''compare electric vs gas cars'', ''hi''] =
     ([Print banner, Prompt ''You: '', RunnerRun ''compare electric vs gas cars''],
      Raised (Error ''RuntimeError'' ''model overloaded''))
   \<and> chat_loop interrupted_runner [''compare electric vs gas cars'', ''hi''] =
     ([Print banner, Prompt ''You: '', RunnerRun ''compare electric vs gas cars''],
      Raised KeyboardInterrupt)"
  by (simp add: main_chat_loop_def main_chat_turn_def chat_loop_def chat_turn_def
      crashing_runner_def interrupted_runner_def lower_question)

text \<open>
  C7, as amended. In the chat loop of DeepSearchAgent.py every turn runs under a
  timeout of 30 seconds: a turn that takes longer, or never ends, prints the fixed
  timeout message and nothing else, and the loop goes on with the next line, the session
  untouched; a turn that ends within the 30 seconds prints its answer. In the chat loop
  of main.py there is no timeout: an answer is printed however long it took, and a turn
  that never ends blocks the loop.
\<close>

theorem turn_timeout:
  "(lower l \<noteq> ''exit'' \<and> exceeds (run n l) 30000 \<longrightarrow>
      chat_turn run n l = ([RunnerRun l, Print timeout_message], Continue)
      \<and> while_true (chat_turn run) n (l # rest) =
          (Prompt ''You: '' # RunnerRun l # Print timeout_message
             # fst (while_true (chat_turn run) (Suc n) rest),
           snd (while_true (chat_turn run) (Suc n) rest)))
   \<and> (\<forall>d out. lower l \<noteq> ''exit'' \<and> run n l = Returns d out \<and> d < 30000 \<longrightarrow>
        chat_turn run n l = ([RunnerRun l, Print (''Agent: '' @ out)], Continue))
   \<and> (\<forall>d out. lower l \<noteq> ''exit'' \<and> run n l = Returns d out \<longrightarrow>
        main_chat_turn run n l = ([RunnerRun l, Print (''Agent: '' @ out)], Continue))
   \<and> (lower l \<noteq> ''exit'' \<and> run n l = Never \<longrightarrow>
        while_true (main_chat_turn run) n (l # rest) =
          ([Prompt ''You: '', RunnerRun l], Blocked))"
proof (intro conjI allI impI)
  fix d out
  assume "lower l \<noteq> ''exit'' \<and> run n l = Returns d out"
  then show "main_chat_turn run n l = ([RunnerRun l, Print (''Agent: '' @ out)], Continue)"
    by (simp add: main_chat_turn_def)
next
  assume "lower l \<noteq> ''exit'' \<and> run n l = Never"
  then show "while_true (main_chat_turn run) n (l # rest) =
          ([Prompt ''You: '', RunnerRun l], Blocked)"
    by (simp add: main_chat_turn_def)
next
  assume a: "lower l \<noteq> ''exit'' \<and> exceeds (run n l) 30000"
  then show t: "chat_turn run n l = ([RunnerRun l, Print timeout_message], Continue)"
    by (simp add: chat_turn_def wait_for_exceeds)
  then show "while_true (chat_turn run) n (l # rest) =
          (Prompt ''You: '' # RunnerRun l # Print timeout_message
             # fst (while_true (chat_turn run) (Suc n) rest),
           snd (while_true (chat_turn run) (Suc n) rest))"
    by (simp add: case_prod_beta)
next
  fix d out
  assume "lower l \<noteq> ''exit'' \<and> run n l = Returns d out \<and> d < 30000"
  then show "chat_turn run n l = ([RunnerRun l, Print (''Agent: '' @ out)], Continue)"
    by (simp add: chat_turn_def)
qed

text \<open>The theorem at a runner that needs 31 seconds for its answer.\<close>

theorem turn_timeout_witness:
  "lower ''compare electric vs gas cars'' \<noteq> ''exit''
   \<and> exceeds (slow_runner 0 ''compare electric vs gas cars'') 30000
   \<and> chat_loop slow_runner [''compare electric vs gas cars'', ''exit''] =
       ([Print banner, Prompt ''You: '', RunnerRun ''compare electric vs gas cars'',
         Print timeout_message, Prompt ''You: '', Print ''Goodbye!'', ClearSession],
        Returned)"
proof -
  have a: "exceeds (slow_runner 0 ''compare electric vs gas cars'') 30000"
    by (simp add: slow_runner_def)
  have b: "while_true (chat_turn slow_runner) (Suc 0) [''exit''] =
      ([Prompt ''You: '', Print ''Goodbye!'', ClearSession], Returned)"
    by (simp add: chat_turn_def lower_exit)
  from turn_timeout [of "''compare electric vs gas cars''" slow_runner 0 "[''exit'']"]
    a b lower_question
  show ?thesis by (simp add: chat_loop_def)
qed

text \<open>
  C7 as stated does not hold: main.py awaits the turn with no timeout. The same runner,
  31 seconds for its answer, is waited for and its answer is printed.
\<close>

theorem main_turn_has_no_timeout:
  "exceeds (slow_runner 0 ''compare electric vs gas cars'') 30000
   \<and> main_chat_loop slow_runner [''compare electric vs gas cars'', ''exit''] =
       ([Print banner, Prompt ''You: '', RunnerRun ''compare electric vs gas cars'',
         Print ''Agent: EVs are cheaper to run.'', Prompt ''You: '', Print ''Goodbye!''],
        Returned)"
  by (simp add: main_chat_loop_def main_chat_turn_def slow_runner_def
      lower_question lower_exit)

text \<open>
  C9, as amended. When the chat loop reads a line whose lower-casing is \<^verbatim>\<open>exit\<close>, it
  prints \<^verbatim>\<open>Goodbye!\<close> and ends: the runner is not called, no \<^verbatim>\<open>Agent:\<close> line is printed
  for that input and the lines after it are not read; DeepSearchAgent.py clears the
  session before it ends. For every line whose lower-casing is not \<^verbatim>\<open>exit\<close> the runner
  is called exactly once, with that line. This holds for the loops of
  DeepSearchAgent.py and main.py; what each loop does on the exit line is given event by
  event.
\<close>

theorem exit_or_one_turn:
  "(lower l = ''exit'' \<longrightarrow>
      while_true (chat_turn run) n (l # rest) =
        ([Prompt ''You: '', Print ''Goodbye!'', ClearSession], Returned)
      \<and> while_true (main_chat_turn run) n (l # rest) =
        ([Prompt ''You: '', Print ''Goodbye!''], Returned))
   \<and> (lower l \<noteq> ''exit'' \<longrightarrow>
        runs (fst (chat_turn run n l)) = [l] \<and> runs (fst (main_chat_turn run n l)) = [l])"
  by (simp add: chat_turn_exit chat_turn_runs main_chat_turn_def unguarded_turn_runs)

text \<open>The theorem at the lines \<^verbatim>\<open>exit\<close> and \<^verbatim>\<open>hi\<close>.\<close>

theorem exit_or_one_turn_witness:
  "lower ''exit'' = ''exit''
   \<and> while_true (chat_turn echo_runner) 0 [''exit'', ''hi''] =
       ([Prompt ''You: '', Print ''Goodbye!'', ClearSession], Returned)
   \<and> while_true (main_chat_turn echo_runner) 0 [''exit'', ''hi''] =
       ([Prompt ''You: '', Print ''Goodbye!''], Returned)
   \<and> lower ''hi'' \<noteq> ''exit''
   \<and> runs (fst (chat_turn echo_runner 0 ''hi'')) = [''hi'']
   \<and> runs (fst (main_chat_turn echo_runner 0 ''hi'')) = [''hi'']"
  using exit_or_one_turn [of "''exit''" echo_runner 0 "[''hi'']"]
    exit_or_one_turn [of "''hi''" echo_runner 0 "[]"] lower_exit lower_hi
  by simp

text \<open>
  C9 as stated does not hold: the line \<^verbatim>\<open>EXIT\<close> is another line than \<^verbatim>\<open>exit\<close>, and no
  turn is processed for it.
\<close>

theorem upper_case_exit_runs_no_turn:
  "''EXIT'' \<noteq> ''exit''
   \<and> chat_loop echo_runner [''EXIT'', ''hi''] =
       ([Print banner, Prompt ''You: '', Print ''Goodbye!'', ClearSession], Returned)
   \<and> runs (fst (chat_loop echo_runner [''EXIT'', ''hi''])) = []"
  by (simp add: chat_loop_def chat_turn_def lower_EXIT)

text \<open>
  C10. In the chat loops of DeepSearchAgent.py and newAgent.py every line whose
  lower-casing is \<^verbatim>\<open>exit\<close> ends the loop: \<^verbatim>\<open>Goodbye!\<close> is printed, the session is
  cleared, the runner is not called and the lines after it are not read.
\<close>

theorem exit_is_case_insensitive:
  "lower l = ''exit'' \<Longrightarrow>
     while_true (chat_turn run) n (l # rest) =
       ([Prompt ''You: '', Print ''Goodbye!'', ClearSession], Returned)
     \<and> while_true (newAgent_chat_turn run) n (l # rest) =
       ([Prompt ''You: '', Print ''Goodbye!'', ClearSession], Returned)
     \<and> chat_loop run (l # rest) =
       ([Print banner, Prompt ''You: '', Print ''Goodbye!'', ClearSession], Returned)
     \<and> newAgent_chat_loop run (l # rest) =
       ([Print banner, Prompt ''You: '', Print ''Goodbye!'', ClearSession], Returned)"
  by (simp add: chat_loop_def newAgent_chat_loop_def chat_turn_def newAgent_chat_turn_def)

text \<open>The theorem at the lines \<^verbatim>\<open>EXIT\<close> and \<^verbatim>\<open>Exit\<close>.\<close>

theorem exit_is_case_insensitive_witness:
  "lower ''EXIT'' = ''exit''
   \<and> chat_loop echo_runner [''EXIT'', ''compare electric vs gas cars''] =
       ([Print banner, Prompt ''You: '', Print ''Goodbye!'', ClearSession], Returned)
   \<and> lower ''Exit'' = ''exit''
   \<and> newAgent_chat_loop echo_runner [''Exit'', ''compare electric vs gas cars''] =
       ([Print banner, Prompt ''You: '', Print ''Goodbye!'', ClearSession], Returned)"
  using exit_is_case_insensitive [of "''EXIT''" echo_runner 0 "[''compare electric vs gas cars'']"]
    exit_is_case_insensitive [of "''Exit''" echo_runner 0 "[''compare electric vs gas cars'']"]
    lower_EXIT lower_Exit
  by simp

section \<open>Properties of the startup\<close>

lemma startup_check: "startup env = check_keys env"
  by (simp add: startup_def check_keys_def)

text \<open>
  C8, as amended. If \<^verbatim>\<open>GEMINI_API_KEY\<close> or \<^verbatim>\<open>TAVILY_API_KEY\<close> is absent from the
  environment or set to the empty string, the program raises a fatal error before the
  chat loop is entered: nothing is printed and no turn is processed. If both are set to
  non-empty strings, DeepSearchAgent.py and newAgent.py enter the chat loop, and so does
  main.py when \<^verbatim>\<open>OPENAI_API_KEY\<close> is set.
\<close>

theorem startup_checks_keys:
  "(env ''GEMINI_API_KEY'' = None \<or> env ''GEMINI_API_KEY'' = Some []
      \<or> env ''TAVILY_API_KEY'' = None \<or> env ''TAVILY_API_KEY'' = Some [] \<longrightarrow>
      startup env = Inl (Error ''ValueError'' ''API KEY MISSING'')
      \<and> DeepSearchAgent env run inputs = ([], Raised (Error ''ValueError'' ''API KEY MISSING''))
      \<and> newAgent env run inputs = ([], Raised (Error ''ValueError'' ''API KEY MISSING''))
      \<and> (\<exists>e. main env run inputs = ([], Raised e)))
   \<and> (\<forall>g t. env ''GEMINI_API_KEY'' = Some g \<and> g \<noteq> []
          \<and> env ''TAVILY_API_KEY'' = Some t \<and> t \<noteq> [] \<longrightarrow>
        startup env = Inr \<lparr>GEMINI_API_KEY = Some g, TAVILY_API_KEY = Some t\<rparr>
        \<and> DeepSearchAgent env run inputs = chat_loop run inputs
        \<and> newAgent env run inputs = newAgent_chat_loop run inputs
        \<and> (env ''OPENAI_API_KEY'' \<noteq> None \<longrightarrow>
             main env run inputs = main_chat_loop run inputs))"
proof (intro conjI allI impI)
  assume a: "env ''GEMINI_API_KEY'' = None \<or> env ''GEMINI_API_KEY'' = Some []
      \<or> env ''TAVILY_API_KEY'' = None \<or> env ''TAVILY_API_KEY'' = Some []"
  then have f: "falsy (env ''GEMINI_API_KEY'') \<or> falsy (env ''TAVILY_API_KEY'')"
    by auto
  then show s: "startup env = Inl (Error ''ValueError'' ''API KEY MISSING'')"
    by (simp add: startup_check check_keys_def)
  then show "DeepSearchAgent env run inputs =
      ([], Raised (Error ''ValueError'' ''API KEY MISSING''))"
    by (simp add: DeepSearchAgent_def)
  from s show "newAgent env run inputs =
      ([], Raised (Error ''ValueError'' ''API KEY MISSING''))"
    by (simp add: newAgent_def)
  from f show "\<exists>e. main env run inputs = ([], Raised e)"
    by (simp add: main_def main_startup_def check_keys_def split: option.splits)
next
  fix g t
  assume a: "env ''GEMINI_API_KEY'' = Some g \<and> g \<noteq> []
          \<and> env ''TAVILY_API_KEY'' = Some t \<and> t \<noteq> []"
  then show s: "startup env = Inr \<lparr>GEMINI_API_KEY = Some g, TAVILY_API_KEY = Some t\<rparr>"
    by (simp add: startup_check check_keys_def)
  then show "DeepSearchAgent env run inputs = chat_loop run inputs"
    by (simp add: DeepSearchAgent_def)
  from s show "newAgent env run inputs = newAgent_chat_loop run inputs"
    by (simp add: newAgent_def)
  assume "env ''OPENAI_API_KEY'' \<noteq> None"
  with a show "main env run inputs = main_chat_loop run inputs"
    by (auto simp: main_def main_startup_def check_keys_def)
qed

text \<open>
  The theorem at an environment without \<^verbatim>\<open>TAVILY_API_KEY\<close> and at one with both keys.
\<close>

theorem startup_checks_keys_witness:
  "no_tavily_environ ''TAVILY_API_KEY'' = None
   \<and> DeepSearchAgent no_tavily_environ echo_runner [''hi'', ''exit''] =
       ([], Raised (Error ''ValueError'' ''API KEY MISSING''))
   \<and> full_environ ''GEMINI_API_KEY'' = Some ''AIza-123''
   \<and> full_environ ''TAVILY_API_KEY'' = Some ''tvly-123''
   \<and> startup full_environ =
       Inr \<lparr>GEMINI_API_KEY = Some ''AIza-123'', TAVILY_API_KEY = Some ''tvly-123''\<rparr>
   \<and> DeepSearchAgent full_environ echo_runner [''hi'', ''exit''] =
       chat_loop echo_runner [''hi'', ''exit'']"
  using startup_checks_keys [of no_tavily_environ echo_runner "[''hi'', ''exit'']"]
    startup_checks_keys [of full_environ echo_runner "[''hi'', ''exit'']"]
  by (simp add: no_tavily_environ_def full_environ_def)

text \<open>
  C8 as stated does not hold: with \<^verbatim>\<open>GEMINI_API_KEY\<close> set to the empty string both keys
  are present in the environment, and the startup raises the error all the same.
\<close>

theorem empty_key_counts_as_missing:
  "empty_key_environ ''GEMINI_API_KEY'' = Some []
   \<and> empty_key_environ ''TAVILY_API_KEY'' = Some ''tvly-123''
   \<and> startup empty_key_environ = Inl (Error ''ValueError'' ''API KEY MISSING'')
   \<and> DeepSearchAgent empty_key_environ echo_runner [''hi'', ''exit''] =
       ([], Raised (Error ''ValueError'' ''API KEY MISSING''))"
  by (simp add: DeepSearchAgent_def startup_def check_keys_def empty_key_environ_def)

end
